theory Spec2Isabelle
  imports Complex_Main
begin

section \<open>Values exchanged with the store and the table library\<close>

text \<open>
  The viewer (\<^verbatim>\<open>viewer.py\<close>, function \<^verbatim>\<open>display_collections\<close>) is glue between three
  collaborators that are not part of the repository: the vector store
  (\<^verbatim>\<open>collection.get\<close>, \<^verbatim>\<open>collection.query\<close>), the table library
  (\<^verbatim>\<open>pd.DataFrame\<close>) and the JSON decoder (\<^verbatim>\<open>json.loads\<close>). The store calls and the
  decoder are parameters of the model. Exceptions are values of \<open>py_error\<close>.
\<close>

datatype py_error = TypeError | ValueError | StoreError

text \<open>A decoded JSON value, with Python's truth test (\<^verbatim>\<open>if where_dict:\<close>).\<close>

datatype json =
    JNull
  | JBool bool
  | JNum rat
  | JStr string
  | JList "json list"
  | JDict "(string \<times> json) list"

fun truthy_json :: "json \<Rightarrow> bool" where
  "truthy_json JNull = False"
| "truthy_json (JBool b) = b"
| "truthy_json (JNum n) = (n \<noteq> 0)"
| "truthy_json (JStr s) = (s \<noteq> [])"
| "truthy_json (JList xs) = (xs \<noteq> [])"
| "truthy_json (JDict kvs) = (kvs \<noteq> [])"

type_synonym metadata = "(string \<times> json) list"

text \<open>
  Floats (embedding components, distances) are carried as rationals; the model only
  stores, counts and compares them for equality, it does no float arithmetic.
\<close>

type_synonym embedding = "rat list"

text \<open>
  The result of \<^verbatim>\<open>collection.get(...)\<close>: a dictionary with the keys \<^verbatim>\<open>ids\<close>,
  \<^verbatim>\<open>embeddings\<close>, \<^verbatim>\<open>metadatas\<close>, \<^verbatim>\<open>documents\<close>, each \<^verbatim>\<open>None\<close> or a list; an item of
  the last three lists may itself be \<^verbatim>\<open>None\<close>.
\<close>

record get_result =
  ids :: "string list option"
  embeddings :: "embedding option list option"
  metadatas :: "metadata option list option"
  documents :: "string option list option"

text \<open>
  The result of \<^verbatim>\<open>collection.query(...)\<close>: every field is \<^verbatim>\<open>None\<close> or one list per
  query text.
\<close>

record query_result =
  qr_ids :: "string list list option"
  qr_documents :: "string option list list option"
  qr_metadatas :: "metadata option list list option"
  qr_distances :: "rat list list option"

text \<open>The keyword arguments of \<^verbatim>\<open>collection.query\<close>; an absent key is \<open>None\<close>.\<close>

record query_params =
  p_query_texts :: "string list"
  p_n_results :: int
  p_where :: "json option"
  p_where_document :: "json option"

text \<open>The values of the widgets of one collection in one run of the script.\<close>

record widgets =
  query_text :: string
  n_results :: int
  include_distances :: bool
  where_filter :: string
  where_document_filter :: string
  browse_limit :: int
  browse_offset :: int
  browse_btn :: bool

text \<open>A column handed to \<^verbatim>\<open>pd.DataFrame\<close>, and the dictionary of columns in insertion order.\<close>

datatype column =
    Ids "string list"
  | Documents "string option list"
  | Metadatas "metadata option list"
  | Embeddings_count "int list"
  | Distances "rat list"

type_synonym table = "(string \<times> column) list"

fun column_len :: "column \<Rightarrow> nat" where
  "column_len (Ids xs) = length xs"
| "column_len (Documents xs) = length xs"
| "column_len (Metadatas xs) = length xs"
| "column_len (Embeddings_count xs) = length xs"
| "column_len (Distances xs) = length xs"

text \<open>
  \<^verbatim>\<open>pd.DataFrame(d)\<close> for a dictionary of lists: pandas raises \<^verbatim>\<open>ValueError\<close> ("All
  arrays must be of the same length") unless all lists are equally long. The source
  relies on this (comments at lines 70 and 76, message at line 228).
\<close>

fun DataFrame :: "(string \<times> column) list \<Rightarrow> py_error + table" where
  "DataFrame [] = Inr []"
| "DataFrame ((k, c) # cs) =
     (if list_all (\<lambda>kc. column_len (snd kc) = column_len c) cs
      then Inr ((k, c) # cs) else Inl ValueError)"

fun nrows :: "table \<Rightarrow> nat" where
  "nrows [] = 0"
| "nrows ((k, c) # cs) = column_len c"

definition columns :: "table \<Rightarrow> string list" where
  "columns df = map fst df"

section \<open>Python's truth test and len on an optional list\<close>

definition truthy :: "'a list option \<Rightarrow> bool" where
  "truthy x = (case x of None \<Rightarrow> False | Some xs \<Rightarrow> xs \<noteq> [])"

text \<open>\<^verbatim>\<open>len(x)\<close>: a \<^verbatim>\<open>TypeError\<close> on \<^verbatim>\<open>None\<close>.\<close>

definition py_len :: "'a list option \<Rightarrow> py_error + int" where
  "py_len x = (case x of None \<Rightarrow> Inl TypeError | Some xs \<Rightarrow> Inr (int (length xs)))"

text \<open>\<^verbatim>\<open>len(x) if x else 0\<close> (lines 62 to 65).\<close>

definition len_or_0 :: "'a list option \<Rightarrow> int" where
  "len_or_0 x = (case x of None \<Rightarrow> 0 | Some xs \<Rightarrow> if xs \<noteq> [] then int (length xs) else 0)"

section \<open>The reconciler (lines 61 to 90 and 227 to 228)\<close>

text \<open>The dictionary \<^verbatim>\<open>lengths\<close> of lines 61 to 66, in the order of the source.\<close>

definition lengths :: "get_result \<Rightarrow> (string \<times> int) list" where
  "lengths r =
     [(''ids'', len_or_0 (ids r)),
      (''embeddings'', len_or_0 (embeddings r)),
      (''metadatas'', len_or_0 (metadatas r)),
      (''documents'', len_or_0 (documents r))]"

text \<open>
  \<^verbatim>\<open>max_length = max(lengths.values())\<close> (line 71). The dictionary always has four values,
  so Python's \<^verbatim>\<open>max\<close> never sees an empty sequence here.
\<close>

definition max_length :: "get_result \<Rightarrow> int" where
  "max_length r = Max (set (map snd (lengths r)))"

text \<open>\<^verbatim>\<open>len(emb) if emb else 0\<close> (line 86).\<close>

definition emb_count :: "embedding option \<Rightarrow> int" where
  "emb_count emb = (case emb of None \<Rightarrow> 0 | Some v \<Rightarrow> if v \<noteq> [] then int (length v) else 0)"

text \<open>
  The dictionary \<^verbatim>\<open>df_data\<close> of lines 77 to 86. \<^verbatim>\<open>x and len(x) == max_length\<close> is
  short-circuit: \<^verbatim>\<open>len\<close> is only taken of a non-empty list.
\<close>

definition df_data :: "get_result \<Rightarrow> int \<Rightarrow> (string \<times> column) list" where
  "df_data r m =
     (case ids r of
        Some xs \<Rightarrow> if xs \<noteq> [] \<and> int (length xs) = m then [(''ids'', Ids xs)] else []
      | None \<Rightarrow> []) @
     (case documents r of
        Some ds \<Rightarrow> if ds \<noteq> [] \<and> int (length ds) = m then [(''documents'', Documents ds)] else []
      | None \<Rightarrow> []) @
     (case metadatas r of
        Some ms \<Rightarrow> if ms \<noteq> [] \<and> int (length ms) = m then [(''metadatas'', Metadatas ms)] else []
      | None \<Rightarrow> []) @
     (case embeddings r of
        Some es \<Rightarrow>
          if es \<noteq> [] \<and> int (length es) = m
          then [(''embeddings_count'', Embeddings_count (map emb_count es))] else []
      | None \<Rightarrow> [])"

text \<open>
  What the reconciler ends in: the message of line 73, the table of lines 89 to 90, or
  the message of line 228.
\<close>

datatype outcome = EmptyCollection | Table table | InconsistentLengths

definition reconcile :: "get_result \<Rightarrow> py_error + outcome" where
  "reconcile r =
     (let m = max_length r in
      if m = 0 then Inr EmptyCollection
      else
        let d = df_data r m in
        if d \<noteq> [] then
          (case DataFrame d of Inl e \<Rightarrow> Inl e | Inr df \<Rightarrow> Inr (Table df))
        else Inr InconsistentLengths)"

section \<open>What the viewer shows and asks of the store\<close>

text \<open>
  One constructor for each streamlit or store call that the properties below are about,
  named after the call. Headings (lines 57, 68, 137, 192) are not recorded.
\<close>

datatype event =
    Markdown_count int
  | Info_empty
  | Dataframe table
  | Warning_inconsistent
  | Error_processing py_error
  | Call_get int int
  | Write_showing int int
  | Info_no_data
  | Info_no_items
  | Error_browse py_error
  | Warning_metadata_filter
  | Warning_document_filter
  | Call_query query_params
  | Write_best_match "rat list"
  | Write_average "rat list"
  | Info_no_display
  | Info_no_results
  | Error_query py_error

section \<open>The browse executor (lines 130 to 156)\<close>

text \<open>The dictionary \<^verbatim>\<open>browse_data\<close> of lines 139 to 145.\<close>

definition browse_data :: "get_result \<Rightarrow> (string \<times> column) list" where
  "browse_data b =
     (case ids b of Some xs \<Rightarrow> if xs \<noteq> [] then [(''ids'', Ids xs)] else [] | None \<Rightarrow> []) @
     (case documents b of
        Some ds \<Rightarrow> if ds \<noteq> [] then [(''documents'', Documents ds)] else []
      | None \<Rightarrow> []) @
     (case metadatas b of
        Some ms \<Rightarrow> if ms \<noteq> [] then [(''metadatas'', Metadatas ms)] else []
      | None \<Rightarrow> [])"

text \<open>
  Lines 138 to 154, after the fetch returned \<open>b\<close>. \<open>Inl\<close> is an exception that
  leaves the block for the handler of line 155.
\<close>

definition show_browse :: "int \<Rightarrow> get_result \<Rightarrow> py_error + event list" where
  "show_browse offset b =
     (if truthy (ids b) then
        (let d = browse_data b in
         if d \<noteq> [] then
           (case DataFrame d of
              Inl e \<Rightarrow> Inl e
            | Inr df \<Rightarrow>
                (case py_len (ids b) of
                   Inl e \<Rightarrow> Inl e
                 | Inr n \<Rightarrow> Inr [Dataframe df, Write_showing offset (offset + n)]))
         else Inr [Info_no_data])
      else Inr [Info_no_items])"

text \<open>
  The button's block with its \<^verbatim>\<open>try\<close>/\<^verbatim>\<open>except Exception\<close>. \<open>get\<close> is the store's
  paged fetch \<^verbatim>\<open>collection.get(limit=..., offset=...)\<close>, which may raise.
\<close>

definition browse_executor ::
  "(int \<Rightarrow> int \<Rightarrow> py_error + get_result) \<Rightarrow> widgets \<Rightarrow> event list" where
  "browse_executor get w =
     (if browse_btn w then
        Call_get (browse_limit w) (browse_offset w) #
        (case get (browse_limit w) (browse_offset w) of
           Inl e \<Rightarrow> [Error_browse e]
         | Inr b \<Rightarrow>
             (case show_browse (browse_offset w) b of
                Inl e \<Rightarrow> [Error_browse e]
              | Inr evs \<Rightarrow> evs))
      else [])"

section \<open>The query executor (lines 158 to 225)\<close>

text \<open>
  Lines 164 to 169 (and 171 to 176): the variable starts as \<^verbatim>\<open>None\<close>; a non-empty text
  is decoded; on \<^verbatim>\<open>JSONDecodeError\<close> (\<open>loads s = None\<close>) a warning is shown and the
  variable stays \<^verbatim>\<open>None\<close>. The result is the variable and whether the warning was shown.
  The decoder is taken to return a value or to raise \<^verbatim>\<open>JSONDecodeError\<close>, the one
  exception that line 168 catches; its resource limits (nesting depth, digits of an
  integer) are outside the model.
\<close>

definition parse_filter :: "(string \<Rightarrow> json option) \<Rightarrow> string \<Rightarrow> json \<times> bool" where
  "parse_filter loads s =
     (if s \<noteq> [] then
        (case loads s of Some v \<Rightarrow> (v, False) | None \<Rightarrow> (JNull, True))
      else (JNull, False))"

text \<open>The dictionary \<^verbatim>\<open>query_params\<close> of lines 179 to 188.\<close>

definition build_query_params :: "widgets \<Rightarrow> int \<Rightarrow> json \<Rightarrow> json \<Rightarrow> query_params" where
  "build_query_params w m where_dict where_document_dict =
     \<lparr>p_query_texts = [query_text w],
      p_n_results = min (n_results w) m,
      p_where = (if truthy_json where_dict then Some where_dict else None),
      p_where_document =
        (if truthy_json where_document_dict then Some where_document_dict else None)\<rparr>"

text \<open>\<^verbatim>\<open>x and x[0]\<close>: the first batch element when both are truthy.\<close>

definition first_batch :: "'a list list option \<Rightarrow> 'a list option" where
  "first_batch x =
     (case x of
        None \<Rightarrow> None
      | Some [] \<Rightarrow> None
      | Some (b # bs) \<Rightarrow> if b \<noteq> [] then Some b else None)"

text \<open>The dictionary \<^verbatim>\<open>result_data\<close> of lines 196 to 208.\<close>

definition result_data :: "bool \<Rightarrow> query_result \<Rightarrow> (string \<times> column) list" where
  "result_data inc q =
     (case first_batch (qr_ids q) of Some b \<Rightarrow> [(''ids'', Ids b)] | None \<Rightarrow> []) @
     (case first_batch (qr_documents q) of
        Some b \<Rightarrow> [(''documents'', Documents b)] | None \<Rightarrow> []) @
     (case first_batch (qr_metadatas q) of
        Some b \<Rightarrow> [(''metadatas'', Metadatas b)] | None \<Rightarrow> []) @
     (if inc then
        (case first_batch (qr_distances q) of
           Some b \<Rightarrow> [(''distances'', Distances b)] | None \<Rightarrow> [])
      else [])"

text \<open>
  Lines 195 to 221, after the store answered \<open>q\<close>. Lines 216 and 217 write the
  smallest distance and \<^verbatim>\<open>sum(...)/len(...)\<close>, both as \<^verbatim>\<open>.4f\<close>; the events carry the
  list they are computed from.
\<close>

definition show_results :: "bool \<Rightarrow> query_result \<Rightarrow> py_error + event list" where
  "show_results inc q =
     (if first_batch (qr_ids q) \<noteq> None then
        (let d = result_data inc q in
         if d \<noteq> [] then
           (case DataFrame d of
              Inl e \<Rightarrow> Inl e
            | Inr df \<Rightarrow>
                Inr (Dataframe df #
                  (if inc then
                     (case map_of d ''distances'' of
                        Some (Distances ds) \<Rightarrow> [Write_best_match ds, Write_average ds]
                      | _ \<Rightarrow> [])
                   else [])))
         else Inr [Info_no_display])
      else Inr [Info_no_results])"

text \<open>
  The block of line 158 with its \<^verbatim>\<open>try\<close>/\<^verbatim>\<open>except Exception\<close>. \<open>loads\<close> is
  \<^verbatim>\<open>json.loads\<close> (\<open>None\<close> when it raises \<^verbatim>\<open>JSONDecodeError\<close>), \<open>query\<close> is the store's
  \<^verbatim>\<open>collection.query\<close>, \<open>m\<close> is \<^verbatim>\<open>max_length\<close>.
\<close>

definition query_executor ::
  "(string \<Rightarrow> json option) \<Rightarrow> (query_params \<Rightarrow> py_error + query_result) \<Rightarrow> int \<Rightarrow> widgets
     \<Rightarrow> event list" where
  "query_executor loads query m w =
     (if query_text w \<noteq> [] then
        (let wd = parse_filter loads (where_filter w);
             wdd = parse_filter loads (where_document_filter w);
             p = build_query_params w m (fst wd) (fst wdd)
         in (if snd wd then [Warning_metadata_filter] else []) @
            (if snd wdd then [Warning_document_filter] else []) @
            Call_query p #
            (case query p of
               Inl e \<Rightarrow> [Error_query e]
             | Inr q \<Rightarrow>
                 (case show_results (include_distances w) q of
                    Inl e \<Rightarrow> [Error_query e]
                  | Inr evs \<Rightarrow> evs)))
      else [])"

section \<open>One collection (the loop body, lines 49 to 232)\<close>

text \<open>
  \<open>r\<close> is what \<^verbatim>\<open>collection.get()\<close> returned at line 50. Line 58 takes \<^verbatim>\<open>len(ids)\<close>
  for the count it prints. An exception outside the two inner \<^verbatim>\<open>try\<close> blocks reaches
  the handler of line 230.
\<close>

definition display_collection ::
  "(string \<Rightarrow> json option) \<Rightarrow> (query_params \<Rightarrow> py_error + query_result) \<Rightarrow>
   (int \<Rightarrow> int \<Rightarrow> py_error + get_result) \<Rightarrow> get_result \<Rightarrow> widgets \<Rightarrow> event list" where
  "display_collection loads query get r w =
     (case py_len (ids r) of
        Inl e \<Rightarrow> [Error_processing e]
      | Inr n \<Rightarrow>
          Markdown_count n #
          (case reconcile r of
             Inl e \<Rightarrow> [Error_processing e]
           | Inr EmptyCollection \<Rightarrow> [Info_empty]
           | Inr InconsistentLengths \<Rightarrow> [Warning_inconsistent]
           | Inr (Table df) \<Rightarrow>
               Dataframe df # browse_executor get w @ query_executor loads query (max_length r) w))"

section \<open>Notions used to state the properties\<close>

text \<open>
  Lines 72 to 74, 88 to 90 and 227 to 228 as a function of the two local variables
  \<^verbatim>\<open>max_length\<close> and \<^verbatim>\<open>df_data\<close>: which of the three ends is chosen.
\<close>

definition stop_or_table :: "int \<Rightarrow> (string \<times> column) list \<Rightarrow> py_error + outcome" where
  "stop_or_table m d =
     (if m = 0 then Inr EmptyCollection
      else if d \<noteq> [] then
        (case DataFrame d of Inl e \<Rightarrow> Inl e | Inr df \<Rightarrow> Inr (Table df))
      else Inr InconsistentLengths)"

text \<open>The arguments of the query calls in a run, in order.\<close>

fun query_calls :: "event list \<Rightarrow> query_params list" where
  "query_calls [] = []"
| "query_calls (Call_query p # es) = p # query_calls es"
| "query_calls (e # es) = query_calls es"

text \<open>The number the viewer prints as the collection's count (line 58).\<close>

definition item_count :: "get_result \<Rightarrow> int" where
  "item_count r = (case ids r of Some xs \<Rightarrow> int (length xs) | None \<Rightarrow> 0)"

text \<open>A store answer cut down to the first batch element of every field.\<close>

definition first_only :: "query_result \<Rightarrow> query_result" where
  "first_only q =
     \<lparr>qr_ids = map_option (take 1) (qr_ids q),
      qr_documents = map_option (take 1) (qr_documents q),
      qr_metadatas = map_option (take 1) (qr_metadatas q),
      qr_distances = map_option (take 1) (qr_distances q)\<rparr>"

text \<open>
  A paged answer whose non-empty \<^verbatim>\<open>documents\<close> and \<^verbatim>\<open>metadatas\<close> lists are as long as
  its \<^verbatim>\<open>ids\<close> list.
\<close>

definition aligned :: "get_result \<Rightarrow> bool" where
  "aligned b =
     ((len_or_0 (documents b) = 0 \<or> len_or_0 (documents b) = len_or_0 (ids b)) \<and>
      (len_or_0 (metadatas b) = 0 \<or> len_or_0 (metadatas b) = len_or_0 (ids b)))"

section \<open>Sample inputs\<close>

text \<open>
  A decoder that agrees with \<^verbatim>\<open>json.loads\<close> on the three texts used below: the empty
  object, an object with one key, and a text that is not JSON.
\<close>

definition sample_loads :: "string \<Rightarrow> json option" where
  "sample_loads s =
     (if s = ''{}'' then Some (JDict [])
      else if s = ''{\"topic\": \"science\"}'' then Some (JDict [(''topic'', JStr ''science'')])
      else None)"

text \<open>A store that answers every query with the same two aligned results.\<close>

definition sample_query :: "query_params \<Rightarrow> py_error + query_result" where
  "sample_query p =
     Inr \<lparr>qr_ids = Some [[''id1'', ''id2'']],
          qr_documents = Some [[Some ''first'', Some ''second'']],
          qr_metadatas = Some [[None, None]],
          qr_distances = Some [[1 / 4, 3 / 4]]\<rparr>"

text \<open>A collection of four items, and its paged fetch.\<close>

definition four_items :: get_result where
  "four_items =
     \<lparr>ids = Some [''id1'', ''id2'', ''id3'', ''id4''],
      embeddings = None,
      metadatas = Some [None, None, None, None],
      documents = Some [Some ''a'', Some ''b'', Some ''c'', Some ''d'']\<rparr>"

definition sample_get :: "int \<Rightarrow> int \<Rightarrow> py_error + get_result" where
  "sample_get limit offset =
     Inr \<lparr>ids = map_option (\<lambda>xs. take (nat limit) (drop (nat offset) xs)) (ids four_items),
          embeddings = None,
          metadatas =
            map_option (\<lambda>xs. take (nat limit) (drop (nat offset) xs)) (metadatas four_items),
          documents =
            map_option (\<lambda>xs. take (nat limit) (drop (nat offset) xs)) (documents four_items)\<rparr>"

text \<open>A paged fetch that answers with two ids and one document.\<close>

definition ragged_get :: "int \<Rightarrow> int \<Rightarrow> py_error + get_result" where
  "ragged_get limit offset =
     Inr \<lparr>ids = Some [''id1'', ''id2''],
          embeddings = None,
          metadatas = None,
          documents = Some [Some ''a'']\<rparr>"

text \<open>A collection whose \<^verbatim>\<open>documents\<close> list is longer than its \<^verbatim>\<open>ids\<close> list.\<close>

definition ragged_collection :: get_result where
  "ragged_collection =
     \<lparr>ids = Some [''id1'', ''id2''],
      embeddings = None,
      metadatas = None,
      documents = Some [Some ''a'', Some ''b'', Some ''c'', Some ''d'']\<rparr>"

text \<open>The collection of the mixed-length example: three ids, three documents, two metadatas.\<close>

definition mixed_collection :: get_result where
  "mixed_collection =
     \<lparr>ids = Some [''id1'', ''id2'', ''id3''],
      embeddings = None,
      metadatas = Some [None, None],
      documents = Some [Some ''a'', None, Some ''c'']\<rparr>"

text \<open>A collection of three items with all four fields; one embedding is missing, one empty.\<close>

definition full_collection :: get_result where
  "full_collection =
     \<lparr>ids = Some [''id1'', ''id2'', ''id3''],
      embeddings = Some [Some [1, 2, 3], None, Some []],
      metadatas = Some [None, Some [(''topic'', JStr ''science'')], None],
      documents = Some [Some ''a'', None, Some ''c'']\<rparr>"

text \<open>Widget values: the defaults of the source, with a query text where one is needed.\<close>

definition idle :: widgets where
  "idle =
     \<lparr>query_text = [], n_results = 5, include_distances = True, where_filter = [],
      where_document_filter = [], browse_limit = 10, browse_offset = 0, browse_btn = False\<rparr>"

definition searching :: widgets where
  "searching = idle\<lparr>query_text := ''cats''\<rparr>"

text \<open>Two filter texts that are not JSON.\<close>

definition searching_bad_filters :: widgets where
  "searching_bad_filters =
     searching\<lparr>where_filter := ''oops'', where_document_filter := ''oops''\<rparr>"

text \<open>A metadata filter that decodes to the empty object.\<close>

definition searching_empty_filter :: widgets where
  "searching_empty_filter = searching\<lparr>where_filter := ''{}''\<rparr>"

text \<open>A metadata filter that decodes to an object with one key.\<close>

definition searching_topic :: widgets where
  "searching_topic = searching\<lparr>where_filter := ''{\"topic\": \"science\"}''\<rparr>"

text \<open>The browse button pressed, with the default limit 10 and offset 0.\<close>

definition browsing :: widgets where
  "browsing = idle\<lparr>browse_btn := True\<rparr>"

section \<open>Facts about the reconciler\<close>

lemma len_or_0_nonneg: "0 \<le> len_or_0 x"
  by (simp add: len_or_0_def split: option.split)

lemma max_length_eq:
  "max_length r =
     max (len_or_0 (ids r)) (max (len_or_0 (embeddings r))
       (max (len_or_0 (metadatas r)) (len_or_0 (documents r))))"
  by (simp add: max_length_def lengths_def)

lemma max_length_nonneg: "0 \<le> max_length r"
  using len_or_0_nonneg [of "ids r"] by (simp add: max_length_eq max_def)

lemma DataFrame_df_data: "DataFrame (df_data r m) = Inr (df_data r m)"
  by (simp add: df_data_def split: option.split)

lemma df_data_nonempty: "0 < max_length r \<Longrightarrow> df_data r (max_length r) \<noteq> []"
  by (auto simp: max_length_eq df_data_def len_or_0_def max_def split: option.splits if_splits)

lemma reconcile_eq:
  "reconcile r =
     (if max_length r = 0 then Inr EmptyCollection
      else Inr (Table (df_data r (max_length r))))"
  using df_data_nonempty [of r] max_length_nonneg [of r]
  by (simp add: reconcile_def Let_def DataFrame_df_data)

lemma reconcile_stop_or_table:
  "reconcile r = stop_or_table (max_length r) (df_data r (max_length r))"
  by (simp add: reconcile_def stop_or_table_def Let_def)

lemma reconcile_never_inconsistent: "reconcile r \<noteq> Inr InconsistentLengths"
  by (simp add: reconcile_eq)

lemma reconcile_never_raises: "reconcile r \<noteq> Inl e"
  by (simp add: reconcile_eq)

lemma column_len_df_data: "c \<in> snd ` set (df_data r m) \<Longrightarrow> int (column_len c) = m"
  by (auto simp: df_data_def split: option.splits if_splits)

lemma nrows_df_data: "df_data r m \<noteq> [] \<Longrightarrow> int (nrows (df_data r m)) = m"
  by (auto simp: df_data_def split: option.splits if_splits)

lemma ids_kept: "0 < m \<Longrightarrow> (''ids'' \<in> set (columns (df_data r m)) \<longleftrightarrow> len_or_0 (ids r) = m)"
  by (auto simp: df_data_def columns_def len_or_0_def split: option.splits if_splits)

lemma documents_kept:
  "0 < m \<Longrightarrow> (''documents'' \<in> set (columns (df_data r m)) \<longleftrightarrow> len_or_0 (documents r) = m)"
  by (auto simp: df_data_def columns_def len_or_0_def split: option.splits if_splits)

lemma metadatas_kept:
  "0 < m \<Longrightarrow> (''metadatas'' \<in> set (columns (df_data r m)) \<longleftrightarrow> len_or_0 (metadatas r) = m)"
  by (auto simp: df_data_def columns_def len_or_0_def split: option.splits if_splits)

lemma embeddings_kept:
  "0 < m \<Longrightarrow>
   (''embeddings_count'' \<in> set (columns (df_data r m)) \<longleftrightarrow> len_or_0 (embeddings r) = m)"
  by (auto simp: df_data_def columns_def len_or_0_def split: option.splits if_splits)

lemma columns_df_data:
  "set (columns (df_data r m)) \<subseteq> {''ids'', ''documents'', ''metadatas'', ''embeddings_count''}"
  by (auto simp: df_data_def columns_def split: option.splits if_splits)

lemma map_of_df_data_ids:
  "map_of (df_data r m) ''ids'' = Some c \<Longrightarrow> \<exists>xs. ids r = Some xs \<and> c = Ids xs"
  by (auto simp: df_data_def split: option.splits if_splits)

lemma map_of_df_data_documents:
  "map_of (df_data r m) ''documents'' = Some c \<Longrightarrow> \<exists>xs. documents r = Some xs \<and> c = Documents xs"
  by (auto simp: df_data_def split: option.splits if_splits)

lemma map_of_df_data_metadatas:
  "map_of (df_data r m) ''metadatas'' = Some c \<Longrightarrow> \<exists>xs. metadatas r = Some xs \<and> c = Metadatas xs"
  by (auto simp: df_data_def split: option.splits if_splits)

lemma map_of_df_data_embeddings:
  "map_of (df_data r m) ''embeddings_count'' = Some c \<Longrightarrow>
   \<exists>es. embeddings r = Some es \<and> c = Embeddings_count (map emb_count es)"
  by (cases "embeddings r") (auto simp: df_data_def split: option.splits if_splits)
section \<open>The reconciler: properties\<close>

text \<open>
  With \<^verbatim>\<open>ids\<close> present, the loop body prints the count and then does what the
  reconciler decides; the reconciler itself (\<open>reconcile_eq\<close>) ends in the empty state or
  in a table and raises nothing.
\<close>

lemma display_collection_present_ids:
  "ids r = Some xs \<Longrightarrow>
   display_collection loads query get r w =
     Markdown_count (int (length xs)) #
     (if max_length r = 0 then [Info_empty]
      else Dataframe (df_data r (max_length r)) #
           browse_executor get w @ query_executor loads query (max_length r) w)"
  by (simp add: display_collection_def py_len_def reconcile_eq)

text \<open>
  C1. The claim: for all four arrays, each absent or a list of any length, the reconciler
  never raises and ends in a table of exactly the longest fields or in one of its two
  stop states. The lines the claim names (50 to 90) include line 58, which takes
  \<^verbatim>\<open>len(ids)\<close> without the test that lines 62 and 78 make. With \<^verbatim>\<open>ids\<close> absent and
  two documents present, that is a \<^verbatim>\<open>TypeError\<close>: the handler of line 230 reports a
  processing error, and neither a table nor a stop state is reached.
\<close>

theorem display_collection_absent_ids:
  "display_collection loads query get
     \<lparr>ids = None, embeddings = None, metadatas = None, documents = Some [Some ''a'', Some ''b'']\<rparr> w
   = [Error_processing TypeError]"
  by (simp add: display_collection_def py_len_def)

text \<open>
  C2. When the longest field has a positive length, the reconciler ends in a table, and
  a field is a column of that table if and only if its length is the maximum. A kept
  column is the field's list as it was fetched (the embeddings as counts), so every
  column has exactly \<open>max_length\<close> entries: nothing is padded or truncated. For three
  ids, three documents, two metadatas and no embeddings the table has the columns
  \<^verbatim>\<open>ids\<close> and \<^verbatim>\<open>documents\<close> and three rows.
\<close>

theorem reconcile_keeps_exactly_the_longest:
  "(0 < max_length r \<longrightarrow>
      (\<exists>df. reconcile r = Inr (Table df) \<and>
         (''ids'' \<in> set (columns df) \<longleftrightarrow> len_or_0 (ids r) = max_length r) \<and>
         (''documents'' \<in> set (columns df) \<longleftrightarrow> len_or_0 (documents r) = max_length r) \<and>
         (''metadatas'' \<in> set (columns df) \<longleftrightarrow> len_or_0 (metadatas r) = max_length r) \<and>
         (''embeddings_count'' \<in> set (columns df) \<longleftrightarrow> len_or_0 (embeddings r) = max_length r) \<and>
         set (columns df) \<subseteq> {''ids'', ''documents'', ''metadatas'', ''embeddings_count''} \<and>
         (\<forall>c. map_of df ''ids'' = Some c \<longrightarrow> (\<exists>xs. ids r = Some xs \<and> c = Ids xs)) \<and>
         (\<forall>c. map_of df ''documents'' = Some c \<longrightarrow>
            (\<exists>ds. documents r = Some ds \<and> c = Documents ds)) \<and>
         (\<forall>c. map_of df ''metadatas'' = Some c \<longrightarrow>
            (\<exists>ms. metadatas r = Some ms \<and> c = Metadatas ms)) \<and>
         (\<forall>c \<in> snd ` set df. int (column_len c) = max_length r) \<and>
         int (nrows df) = max_length r)) \<and>
   (length xs = 3 \<and> length ds = 3 \<and> length ms = 2 \<longrightarrow>
      reconcile \<lparr>ids = Some xs, embeddings = None, metadatas = Some ms, documents = Some ds\<rparr>
        = Inr (Table [(''ids'', Ids xs), (''documents'', Documents ds)]) \<and>
      nrows [(''ids'', Ids xs), (''documents'', Documents ds)] = 3)"
proof (intro conjI impI)
  assume pos: "0 < max_length r"
  let ?df = "df_data r (max_length r)"
  have "reconcile r = Inr (Table ?df)"
    using pos by (simp add: reconcile_eq)
  moreover have "int (nrows ?df) = max_length r"
    using pos by (simp add: nrows_df_data df_data_nonempty)
  moreover have "\<forall>c \<in> snd ` set ?df. int (column_len c) = max_length r"
    using column_len_df_data by blast
  ultimately show "\<exists>df. reconcile r = Inr (Table df) \<and>
         (''ids'' \<in> set (columns df) \<longleftrightarrow> len_or_0 (ids r) = max_length r) \<and>
         (''documents'' \<in> set (columns df) \<longleftrightarrow> len_or_0 (documents r) = max_length r) \<and>
         (''metadatas'' \<in> set (columns df) \<longleftrightarrow> len_or_0 (metadatas r) = max_length r) \<and>
         (''embeddings_count'' \<in> set (columns df) \<longleftrightarrow> len_or_0 (embeddings r) = max_length r) \<and>
         set (columns df) \<subseteq> {''ids'', ''documents'', ''metadatas'', ''embeddings_count''} \<and>
         (\<forall>c. map_of df ''ids'' = Some c \<longrightarrow> (\<exists>xs. ids r = Some xs \<and> c = Ids xs)) \<and>
         (\<forall>c. map_of df ''documents'' = Some c \<longrightarrow>
            (\<exists>ds. documents r = Some ds \<and> c = Documents ds)) \<and>
         (\<forall>c. map_of df ''metadatas'' = Some c \<longrightarrow>
            (\<exists>ms. metadatas r = Some ms \<and> c = Metadatas ms)) \<and>
         (\<forall>c \<in> snd ` set df. int (column_len c) = max_length r) \<and>
         int (nrows df) = max_length r"
    using pos ids_kept [of "max_length r" r] documents_kept [of "max_length r" r]
      metadatas_kept [of "max_length r" r] embeddings_kept [of "max_length r" r]
      columns_df_data [of r "max_length r"]
      map_of_df_data_ids [of r "max_length r"] map_of_df_data_documents [of r "max_length r"]
      map_of_df_data_metadatas [of r "max_length r"]
    by (intro exI [of _ ?df]) blast
next
  assume len: "length xs = 3 \<and> length ds = 3 \<and> length ms = 2"
  let ?r = "\<lparr>ids = Some xs, embeddings = None, metadatas = Some ms, documents = Some ds\<rparr>"
  have m: "max_length ?r = 3"
    using len by (auto simp: max_length_eq len_or_0_def)
  show "reconcile ?r = Inr (Table [(''ids'', Ids xs), (''documents'', Documents ds)])"
    using len by (auto simp: reconcile_eq m df_data_def)
  show "nrows [(''ids'', Ids xs), (''documents'', Documents ds)] = 3"
    using len by simp
qed

theorem reconcile_keeps_exactly_the_longest_witness:
  "0 < max_length mixed_collection \<and>
   length [''id1'', ''id2'', ''id3''] = 3 \<and>
   length [Some ''a'', None, Some ''c''] = 3 \<and>
   length [None :: metadata option, None] = 2 \<and>
   reconcile mixed_collection =
     Inr (Table [(''ids'', Ids [''id1'', ''id2'', ''id3'']),
                 (''documents'', Documents [Some ''a'', None, Some ''c''])]) \<and>
   (\<exists>df. reconcile mixed_collection = Inr (Table df) \<and>
      ''ids'' \<in> set (columns df) \<and> ''documents'' \<in> set (columns df) \<and>
      ''metadatas'' \<notin> set (columns df) \<and> ''embeddings_count'' \<notin> set (columns df) \<and>
      nrows df = 3)"
proof -
  have m: "max_length mixed_collection = 3"
    by (simp add: max_length_eq mixed_collection_def len_or_0_def)
  have l: "len_or_0 (ids mixed_collection) = 3" "len_or_0 (documents mixed_collection) = 3"
    "len_or_0 (metadatas mixed_collection) = 2" "len_or_0 (embeddings mixed_collection) = 0"
    by (simp_all add: mixed_collection_def len_or_0_def)
  have r: "mixed_collection =
      \<lparr>ids = Some [''id1'', ''id2'', ''id3''], embeddings = None,
       metadatas = Some [None, None], documents = Some [Some ''a'', None, Some ''c'']\<rparr>"
    by (simp add: mixed_collection_def)
  show ?thesis
    using reconcile_keeps_exactly_the_longest
      [of mixed_collection "[''id1'', ''id2'', ''id3'']" "[Some ''a'', None, Some ''c'']"
        "[None, None]"]
    unfolding m l r [symmetric]
    by auto
qed

text \<open>
  C3. When all four arrays have the same positive length \<open>N\<close>, the table has the four
  columns \<^verbatim>\<open>ids\<close>, \<^verbatim>\<open>documents\<close>, \<^verbatim>\<open>metadatas\<close> and \<^verbatim>\<open>embeddings_count\<close> and \<open>N\<close> rows;
  the last column holds the length of each embedding (an integer, 0 for a missing one),
  never the vector. The loop body shows this table after the count.
\<close>

theorem reconcile_equal_lengths:
  "0 < N \<and> length xs = N \<and> length ds = N \<and> length ms = N \<and> length es = N \<Longrightarrow>
   reconcile \<lparr>ids = Some xs, embeddings = Some es, metadatas = Some ms, documents = Some ds\<rparr>
     = Inr (Table [(''ids'', Ids xs), (''documents'', Documents ds), (''metadatas'', Metadatas ms),
                   (''embeddings_count'', Embeddings_count (map emb_count es))]) \<and>
   nrows [(''ids'', Ids xs), (''documents'', Documents ds), (''metadatas'', Metadatas ms),
          (''embeddings_count'', Embeddings_count (map emb_count es))] = N \<and>
   (\<forall>i < N. map emb_count es ! i =
      (case es ! i of None \<Rightarrow> 0 | Some v \<Rightarrow> int (length v))) \<and>
   display_collection loads query get
       \<lparr>ids = Some xs, embeddings = Some es, metadatas = Some ms, documents = Some ds\<rparr> w
     = Markdown_count (int N) #
       Dataframe [(''ids'', Ids xs), (''documents'', Documents ds), (''metadatas'', Metadatas ms),
                  (''embeddings_count'', Embeddings_count (map emb_count es))] #
       browse_executor get w @ query_executor loads query (int N) w"
proof -
  assume a: "0 < N \<and> length xs = N \<and> length ds = N \<and> length ms = N \<and> length es = N"
  let ?r = "\<lparr>ids = Some xs, embeddings = Some es, metadatas = Some ms, documents = Some ds\<rparr>"
  let ?t = "[(''ids'', Ids xs), (''documents'', Documents ds), (''metadatas'', Metadatas ms),
             (''embeddings_count'', Embeddings_count (map emb_count es))]"
  have m: "max_length ?r = int N"
    using a by (auto simp: max_length_eq len_or_0_def)
  have d: "df_data ?r (int N) = ?t"
    using a by (auto simp: df_data_def)
  have rec: "reconcile ?r = Inr (Table ?t)"
    using a by (simp add: reconcile_eq m d)
  have cnt: "\<forall>i < N. map emb_count es ! i = (case es ! i of None \<Rightarrow> 0 | Some v \<Rightarrow> int (length v))"
    using a by (auto simp: emb_count_def split: option.split)
  have disp: "display_collection loads query get ?r w =
      Markdown_count (int N) # Dataframe ?t #
      browse_executor get w @ query_executor loads query (int N) w"
    using a by (simp add: display_collection_def py_len_def rec m)
  show ?thesis
    using a rec cnt disp by simp
qed

theorem reconcile_equal_lengths_witness:
  "0 < (3::nat) \<and>
   reconcile full_collection =
     Inr (Table [(''ids'', Ids [''id1'', ''id2'', ''id3'']),
                 (''documents'', Documents [Some ''a'', None, Some ''c'']),
                 (''metadatas'', Metadatas [None, Some [(''topic'', JStr ''science'')], None]),
                 (''embeddings_count'', Embeddings_count [3, 0, 0])])"
proof -
  have a: "0 < (3::nat) \<and> length [''id1'', ''id2'', ''id3''] = 3 \<and>
      length [Some ''a'', None, Some ''c''] = 3 \<and>
      length [None, Some [(''topic'', JStr ''science'')], None :: metadata option] = 3 \<and>
      length [Some [1, 2, 3], None, Some [] :: embedding option] = 3"
    by simp
  show ?thesis
    using reconcile_equal_lengths [OF a]
    by (simp add: full_collection_def emb_count_def)
qed

text \<open>
  C4. The choice between the two stop states and the table, as lines 72, 88 and 227
  make it from \<^verbatim>\<open>max_length\<close> and \<^verbatim>\<open>df_data\<close>: maximum 0 gives the empty state; a
  non-zero maximum with no surviving field gives the inconsistent state; the
  inconsistent state is never chosen at maximum 0; with a surviving field neither stop
  state is chosen; the two states differ. The reconciler is this choice at its own
  \<^verbatim>\<open>max_length\<close> and \<^verbatim>\<open>df_data\<close>. (For lists the longest field always survives,
  \<open>df_data_nonempty\<close>, so the reconciler itself never ends in the inconsistent state,
  \<open>reconcile_never_inconsistent\<close>.)
\<close>

theorem stop_states_selected:
  "(m = 0 \<longrightarrow> stop_or_table m d = Inr EmptyCollection) \<and>
   (m \<noteq> 0 \<and> d = [] \<longrightarrow> stop_or_table m d = Inr InconsistentLengths) \<and>
   (m = 0 \<longrightarrow> stop_or_table m d \<noteq> Inr InconsistentLengths) \<and>
   (m \<noteq> 0 \<and> d \<noteq> [] \<longrightarrow>
      stop_or_table m d \<noteq> Inr EmptyCollection \<and> stop_or_table m d \<noteq> Inr InconsistentLengths) \<and>
   EmptyCollection \<noteq> InconsistentLengths \<and>
   reconcile r = stop_or_table (max_length r) (df_data r (max_length r)) \<and>
   (max_length r = 0 \<longrightarrow> reconcile r = Inr EmptyCollection) \<and>
   (df_data r (max_length r) \<noteq> [] \<longrightarrow> (\<exists>df. reconcile r = Inr (Table df)))"
proof -
  have "df_data r (max_length r) \<noteq> [] \<longrightarrow> (\<exists>df. reconcile r = Inr (Table df))"
  proof
    assume ne: "df_data r (max_length r) \<noteq> []"
    have "max_length r \<noteq> 0"
    proof
      assume z: "max_length r = 0"
      have "df_data r 0 = []"
        using z by (auto simp: df_data_def split: option.splits)
      with ne z show False by simp
    qed
    then show "\<exists>df. reconcile r = Inr (Table df)"
      by (simp add: reconcile_eq)
  qed
  moreover have "m \<noteq> 0 \<and> d \<noteq> [] \<longrightarrow>
      stop_or_table m d \<noteq> Inr EmptyCollection \<and> stop_or_table m d \<noteq> Inr InconsistentLengths"
    by (auto simp: stop_or_table_def split: sum.splits)
  ultimately show ?thesis
    by (simp add: reconcile_stop_or_table [symmetric] reconcile_eq) (simp add: stop_or_table_def)
qed

theorem stop_states_selected_witness:
  "stop_or_table 0 [] = Inr EmptyCollection \<and>
   stop_or_table 2 [] = Inr InconsistentLengths \<and>
   stop_or_table 0 [] \<noteq> Inr InconsistentLengths \<and>
   stop_or_table 1 [(''ids'', Ids [''id1''])] = Inr (Table [(''ids'', Ids [''id1''])]) \<and>
   max_length \<lparr>ids = Some [], embeddings = None, metadatas = None, documents = Some []\<rparr> = 0 \<and>
   reconcile \<lparr>ids = Some [], embeddings = None, metadatas = None, documents = Some []\<rparr>
     = Inr EmptyCollection \<and>
   df_data mixed_collection (max_length mixed_collection) \<noteq> [] \<and>
   (\<exists>df. reconcile mixed_collection = Inr (Table df))"
proof -
  have m0: "max_length \<lparr>ids = Some [], embeddings = None, metadatas = None, documents = Some []\<rparr> = 0"
    by (simp add: max_length_eq len_or_0_def)
  have m3: "max_length mixed_collection = 3"
    by (simp add: max_length_eq mixed_collection_def len_or_0_def)
  have d3: "df_data mixed_collection 3 \<noteq> []"
    by (simp add: df_data_def mixed_collection_def)
  show ?thesis
    using stop_states_selected [of 0 "[]"
        "\<lparr>ids = Some [], embeddings = None, metadatas = None, documents = Some []\<rparr>"]
      stop_states_selected [of 2 "[]" mixed_collection]
      stop_states_selected [of 1 "[(''ids'', Ids [''id1''])]" mixed_collection]
    unfolding m0 m3
    using d3 by (simp add: stop_or_table_def)
qed

text \<open>
  C10. When the table has the column \<^verbatim>\<open>embeddings_count\<close>, the column is the list of
  the embeddings' lengths: 0 for an embedding that is \<^verbatim>\<open>None\<close> or empty, the length
  otherwise; every entry is a non-negative integer.
\<close>

theorem embeddings_count_entries:
  "reconcile r = Inr (Table df) \<and> map_of df ''embeddings_count'' = Some c \<Longrightarrow>
   \<exists>es. embeddings r = Some es \<and> c = Embeddings_count (map emb_count es) \<and>
     (\<forall>i < length es.
        (es ! i = None \<longrightarrow> map emb_count es ! i = 0) \<and>
        (es ! i = Some [] \<longrightarrow> map emb_count es ! i = 0) \<and>
        (\<forall>v. es ! i = Some v \<longrightarrow> map emb_count es ! i = int (length v)) \<and>
        0 \<le> map emb_count es ! i)"
proof -
  assume a: "reconcile r = Inr (Table df) \<and> map_of df ''embeddings_count'' = Some c"
  then have "df = df_data r (max_length r)"
    by (simp add: reconcile_eq split: if_splits)
  with a obtain es where es: "embeddings r = Some es" "c = Embeddings_count (map emb_count es)"
    using map_of_df_data_embeddings by blast
  have "\<forall>i < length es.
        (es ! i = None \<longrightarrow> map emb_count es ! i = 0) \<and>
        (es ! i = Some [] \<longrightarrow> map emb_count es ! i = 0) \<and>
        (\<forall>v. es ! i = Some v \<longrightarrow> map emb_count es ! i = int (length v)) \<and>
        0 \<le> map emb_count es ! i"
    by (auto simp: emb_count_def split: option.split)
  with es show ?thesis by blast
qed

theorem embeddings_count_entries_witness:
  "reconcile full_collection =
     Inr (Table [(''ids'', Ids [''id1'', ''id2'', ''id3'']),
                 (''documents'', Documents [Some ''a'', None, Some ''c'']),
                 (''metadatas'', Metadatas [None, Some [(''topic'', JStr ''science'')], None]),
                 (''embeddings_count'', Embeddings_count [3, 0, 0])]) \<and>
   map_of [(''ids'', Ids [''id1'', ''id2'', ''id3'']),
           (''documents'', Documents [Some ''a'', None, Some ''c'']),
           (''metadatas'', Metadatas [None, Some [(''topic'', JStr ''science'')], None]),
           (''embeddings_count'', Embeddings_count [3, 0, 0])] ''embeddings_count''
     = Some (Embeddings_count [3, 0, 0]) \<and>
   (\<exists>es. embeddings full_collection = Some es \<and> [3, 0, 0] = map emb_count es)"
proof -
  have m: "max_length full_collection = 3"
    by (simp add: max_length_eq full_collection_def len_or_0_def)
  have rec: "reconcile full_collection =
     Inr (Table [(''ids'', Ids [''id1'', ''id2'', ''id3'']),
                 (''documents'', Documents [Some ''a'', None, Some ''c'']),
                 (''metadatas'', Metadatas [None, Some [(''topic'', JStr ''science'')], None]),
                 (''embeddings_count'', Embeddings_count [3, 0, 0])])"
    by (simp add: reconcile_eq m) (simp add: df_data_def full_collection_def emb_count_def)
  have look: "map_of [(''ids'', Ids [''id1'', ''id2'', ''id3'']),
           (''documents'', Documents [Some ''a'', None, Some ''c'']),
           (''metadatas'', Metadatas [None, Some [(''topic'', JStr ''science'')], None]),
           (''embeddings_count'', Embeddings_count [3, 0, 0])] ''embeddings_count''
     = Some (Embeddings_count [3, 0, 0])"
    by simp
  from embeddings_count_entries [OF conjI [OF rec look]]
  have "\<exists>es. embeddings full_collection = Some es \<and> [3, 0, 0] = map emb_count es"
    by auto
  with rec look show ?thesis by blast
qed
section \<open>Facts about the two executors\<close>

lemma query_calls_append: "query_calls (xs @ ys) = query_calls xs @ query_calls ys"
  by (induction xs rule: query_calls.induct) simp_all

lemma query_calls_show_results: "show_results inc q = Inr evs \<Longrightarrow> query_calls evs = []"
  by (auto simp: show_results_def Let_def split: if_splits sum.splits option.splits column.splits)

lemma query_calls_show_browse: "show_browse k b = Inr evs \<Longrightarrow> query_calls evs = []"
  by (auto simp: show_browse_def Let_def split: if_splits sum.splits)

lemma query_calls_browse_executor: "query_calls (browse_executor get w) = []"
  by (auto simp: browse_executor_def query_calls_show_browse split: sum.splits)

lemma query_calls_query_executor:
  "query_text w \<noteq> [] \<Longrightarrow>
   query_calls (query_executor loads query m w) =
     [build_query_params w m (fst (parse_filter loads (where_filter w)))
        (fst (parse_filter loads (where_document_filter w)))]"
  by (auto simp: query_executor_def Let_def query_calls_append query_calls_show_results
      split: sum.splits)

lemma first_batch_take: "first_batch (map_option (take (Suc 0)) x) = first_batch x"
  by (auto simp: first_batch_def split: option.splits list.splits)

lemma result_data_first_only: "result_data inc (first_only q) = result_data inc q"
  by (simp add: result_data_def first_only_def first_batch_take)

lemma show_results_first_only: "show_results inc (first_only q) = show_results inc q"
  unfolding show_results_def result_data_first_only
  by (auto simp: first_only_def first_batch_take)

lemma parse_filter_empty: "parse_filter loads [] = (JNull, False)"
  by (simp add: parse_filter_def)

text \<open>
  Lines 215 to 217: with distances asked for and present in the first batch element,
  both statistics lines are written after the table, from that batch element; with no
  ids in the first batch element nothing but the "no results" message is shown.
\<close>

lemma distance_stats_written:
  "first_batch (qr_ids q) = Some xs \<Longrightarrow> first_batch (qr_distances q) = Some ds \<Longrightarrow>
   DataFrame (result_data True q) = Inr df \<Longrightarrow>
   show_results True q = Inr [Dataframe df, Write_best_match ds, Write_average ds]"
  by (auto simp: show_results_def result_data_def Let_def split: option.splits)

lemma no_ids_no_stats:
  "first_batch (qr_ids q) = None \<Longrightarrow> show_results inc q = Inr [Info_no_results]"
  by (simp add: show_results_def)

lemma DataFrame_browse_data:
  "truthy (ids b) \<Longrightarrow> aligned b \<Longrightarrow> DataFrame (browse_data b) = Inr (browse_data b)"
  by (auto simp: truthy_def aligned_def browse_data_def len_or_0_def
      split: option.splits if_splits)

lemma DataFrame_browse_data_ragged:
  "truthy (ids b) \<Longrightarrow> \<not> aligned b \<Longrightarrow> DataFrame (browse_data b) = Inl ValueError"
  by (auto simp: truthy_def aligned_def browse_data_def len_or_0_def
      split: option.splits if_splits)

lemma browse_data_columns:
  "truthy (ids b) \<Longrightarrow>
   ''ids'' \<in> set (columns (browse_data b)) \<and>
   (''documents'' \<in> set (columns (browse_data b)) \<longleftrightarrow> truthy (documents b)) \<and>
   (''metadatas'' \<in> set (columns (browse_data b)) \<longleftrightarrow> truthy (metadatas b)) \<and>
   set (columns (browse_data b)) \<subseteq> {''ids'', ''documents'', ''metadatas''} \<and>
   int (nrows (browse_data b)) = item_count b"
  by (auto simp: truthy_def browse_data_def columns_def item_count_def
      split: option.splits if_splits)

section \<open>The query executor: properties\<close>

text \<open>
  C5, as the claim states it: the count handed to the store is the smaller of
  \<^verbatim>\<open>n_results\<close> and the collection's item count. The viewer prints \<^verbatim>\<open>len(ids)\<close> as the
  count (line 58) and clamps by \<^verbatim>\<open>max_length\<close> (line 181). For a collection with two
  ids and four documents the count handed over is 4, not \<open>min 5 2\<close>.
\<close>

theorem ragged_collection_query_count:
  "item_count ragged_collection = 2 \<and>
   n_results searching = 5 \<and>
   min (n_results searching) (item_count ragged_collection) = 2 \<and>
   map p_n_results
     (query_calls (display_collection sample_loads sample_query sample_get
        ragged_collection searching)) = [4]"
proof -
  have m: "max_length ragged_collection = 4"
    by (simp add: max_length_eq ragged_collection_def len_or_0_def)
  have i: "ids ragged_collection = Some [''id1'', ''id2'']"
    by (simp add: ragged_collection_def)
  have q: "query_text searching \<noteq> []"
    by (simp add: searching_def idle_def)
  have c: "map p_n_results
     (query_calls (display_collection sample_loads sample_query sample_get
        ragged_collection searching)) = [4]"
    using q
    by (simp add: display_collection_present_ids [OF i] m query_calls_append
        query_calls_browse_executor query_calls_query_executor build_query_params_def)
       (simp add: searching_def idle_def)
  show ?thesis
    using c by (simp add: item_count_def i searching_def idle_def)
qed

text \<open>
  C5, amended. When a query is issued (ids present, a positive \<^verbatim>\<open>max_length\<close>, a
  non-empty query text), exactly one count is handed to the store and it is the smaller
  of \<^verbatim>\<open>n_results\<close> and \<^verbatim>\<open>max_length\<close>, the length of the longest fetched field. When
  \<^verbatim>\<open>ids\<close> is among the longest fields this is the smaller of \<^verbatim>\<open>n_results\<close> and the item
  count; for \<^verbatim>\<open>n_results = 5\<close> and three items it is 3. The bounds 1 and 50 of the
  widget are not needed.
\<close>

theorem submitted_count_is_min_with_max_length:
  "ids r \<noteq> None \<and> 0 < max_length r \<and> query_text w \<noteq> [] \<Longrightarrow>
   map p_n_results (query_calls (display_collection loads query get r w))
     = [min (n_results w) (max_length r)] \<and>
   (len_or_0 (ids r) = max_length r \<longrightarrow>
      map p_n_results (query_calls (display_collection loads query get r w))
        = [min (n_results w) (item_count r)])"
proof -
  assume a: "ids r \<noteq> None \<and> 0 < max_length r \<and> query_text w \<noteq> []"
  then obtain xs where xs: "ids r = Some xs" by auto
  have c: "map p_n_results (query_calls (display_collection loads query get r w))
     = [min (n_results w) (max_length r)]"
    using a
    by (simp add: display_collection_present_ids [OF xs] query_calls_append
        query_calls_browse_executor query_calls_query_executor build_query_params_def)
  have "len_or_0 (ids r) = max_length r \<longrightarrow> max_length r = item_count r"
    using a by (auto simp: xs len_or_0_def item_count_def split: if_splits)
  with c show ?thesis by simp
qed

theorem submitted_count_is_min_with_max_length_witness:
  "ids full_collection \<noteq> None \<and> 0 < max_length full_collection \<and> query_text searching \<noteq> [] \<and>
   len_or_0 (ids full_collection) = max_length full_collection \<and>
   item_count full_collection = 3 \<and> n_results searching = 5 \<and>
   map p_n_results
     (query_calls (display_collection sample_loads sample_query sample_get
        full_collection searching)) = [3]"
proof -
  have m: "max_length full_collection = 3"
    by (simp add: max_length_eq full_collection_def len_or_0_def)
  have l: "len_or_0 (ids full_collection) = 3"
    by (simp add: full_collection_def len_or_0_def)
  have c: "item_count full_collection = 3"
    by (simp add: full_collection_def item_count_def)
  have a: "ids full_collection \<noteq> None \<and> 0 < max_length full_collection \<and>
      query_text searching \<noteq> []"
    by (simp add: m) (simp add: full_collection_def searching_def idle_def)
  have n: "n_results searching = 5"
    by (simp add: searching_def idle_def)
  show ?thesis
    using submitted_count_is_min_with_max_length
      [OF a, of sample_loads sample_query sample_get] a
    by (simp add: m l c n)
qed

text \<open>
  C6. In a run with a query text, a non-empty metadata filter that the decoder rejects
  produces the warning of line 169, and the run is the warning followed by the run the
  executor would make with that filter left empty: one query call, with no \<^verbatim>\<open>where\<close>
  key. The same holds for the document filter with the warning of line 176 and the key
  \<^verbatim>\<open>where_document\<close>. The executor returns its list of events in every case: nothing
  is raised out of it.
\<close>

theorem unparsable_filter_is_dropped:
  "query_text w \<noteq> [] \<Longrightarrow>
   (where_filter w \<noteq> [] \<and> loads (where_filter w) = None \<longrightarrow>
      Warning_metadata_filter \<in> set (query_executor loads query m w) \<and>
      (\<exists>p. query_calls (query_executor loads query m w) = [p] \<and> p_where p = None) \<and>
      query_executor loads query m w =
        Warning_metadata_filter # query_executor loads query m (w\<lparr>where_filter := []\<rparr>)) \<and>
   (where_document_filter w \<noteq> [] \<and> loads (where_document_filter w) = None \<longrightarrow>
      Warning_document_filter \<in> set (query_executor loads query m w) \<and>
      (\<exists>p. query_calls (query_executor loads query m w) = [p] \<and> p_where_document p = None) \<and>
      remove1 Warning_document_filter (query_executor loads query m w) =
        query_executor loads query m (w\<lparr>where_document_filter := []\<rparr>))"
proof (intro conjI impI)
  assume q: "query_text w \<noteq> []"
  assume f: "where_filter w \<noteq> [] \<and> loads (where_filter w) = None"
  have pf: "parse_filter loads (where_filter w) = (JNull, True)"
    using f by (simp add: parse_filter_def)
  show "Warning_metadata_filter \<in> set (query_executor loads query m w)"
    using q by (simp add: query_executor_def Let_def pf)
  show "\<exists>p. query_calls (query_executor loads query m w) = [p] \<and> p_where p = None"
    using q by (simp add: query_calls_query_executor pf build_query_params_def)
  show "query_executor loads query m w =
        Warning_metadata_filter # query_executor loads query m (w\<lparr>where_filter := []\<rparr>)"
    using q
    by (simp add: query_executor_def Let_def pf parse_filter_empty build_query_params_def
        cong: sum.case_cong)
next
  assume q: "query_text w \<noteq> []"
  assume f: "where_document_filter w \<noteq> [] \<and> loads (where_document_filter w) = None"
  have pf: "parse_filter loads (where_document_filter w) = (JNull, True)"
    using f by (simp add: parse_filter_def)
  show "Warning_document_filter \<in> set (query_executor loads query m w)"
    using q by (simp add: query_executor_def Let_def pf)
  show "\<exists>p. query_calls (query_executor loads query m w) = [p] \<and> p_where_document p = None"
    using q by (simp add: query_calls_query_executor pf build_query_params_def)
  show "remove1 Warning_document_filter (query_executor loads query m w) =
        query_executor loads query m (w\<lparr>where_document_filter := []\<rparr>)"
    using q
    by (simp add: query_executor_def Let_def pf parse_filter_empty build_query_params_def
        cong: sum.case_cong)
qed

theorem unparsable_filter_is_dropped_witness:
  "query_text searching_bad_filters \<noteq> [] \<and>
   where_filter searching_bad_filters \<noteq> [] \<and>
   sample_loads (where_filter searching_bad_filters) = None \<and>
   where_document_filter searching_bad_filters \<noteq> [] \<and>
   sample_loads (where_document_filter searching_bad_filters) = None \<and>
   Warning_metadata_filter \<in> set (query_executor sample_loads sample_query 3 searching_bad_filters) \<and>
   Warning_document_filter \<in> set (query_executor sample_loads sample_query 3 searching_bad_filters) \<and>
   (\<exists>p. query_calls (query_executor sample_loads sample_query 3 searching_bad_filters) = [p] \<and>
      p_where p = None) \<and>
   (\<exists>p. query_calls (query_executor sample_loads sample_query 3 searching_bad_filters) = [p] \<and>
      p_where_document p = None)"
proof -
  have q: "query_text searching_bad_filters \<noteq> []"
    by (simp add: searching_bad_filters_def searching_def idle_def)
  have f: "where_filter searching_bad_filters \<noteq> [] \<and>
      sample_loads (where_filter searching_bad_filters) = None"
    by (simp add: searching_bad_filters_def searching_def idle_def sample_loads_def)
  have g: "where_document_filter searching_bad_filters \<noteq> [] \<and>
      sample_loads (where_document_filter searching_bad_filters) = None"
    by (simp add: searching_bad_filters_def searching_def idle_def sample_loads_def)
  show ?thesis
    using unparsable_filter_is_dropped [OF q, of sample_loads sample_query 3] q f g
    by blast
qed

text \<open>
  C7, as the claim states it: every filter that decodes is attached under its key. The
  test of line 184 is Python's truth test, so the filter text \<^verbatim>\<open>{}\<close> decodes to an empty
  object and is not attached.
\<close>

theorem empty_object_filter_not_attached:
  "query_text searching_empty_filter \<noteq> [] \<and>
   where_filter searching_empty_filter \<noteq> [] \<and>
   sample_loads (where_filter searching_empty_filter) = Some (JDict []) \<and>
   map p_where (query_calls (query_executor sample_loads sample_query 3 searching_empty_filter))
     = [None]"
proof -
  have q: "query_text searching_empty_filter \<noteq> []"
    by (simp add: searching_empty_filter_def searching_def idle_def)
  have l: "sample_loads (where_filter searching_empty_filter) = Some (JDict [])"
    by (simp add: searching_empty_filter_def searching_def idle_def sample_loads_def)
  have n: "where_filter searching_empty_filter \<noteq> []"
    by (simp add: searching_empty_filter_def searching_def idle_def)
  show ?thesis
    using q l n
    by (simp add: query_calls_query_executor build_query_params_def parse_filter_def)
qed

text \<open>
  C7, amended. For a non-empty query text the executor makes exactly one query call.
  Its arguments are the query text as a one-element list, the smaller of \<^verbatim>\<open>n_results\<close>
  and \<^verbatim>\<open>max_length\<close>, and each filter under its key when its text is non-empty, decodes
  and the decoded value is truthy (not \<^verbatim>\<open>null\<close>, \<^verbatim>\<open>false\<close>, 0, or an empty string, list
  or object); otherwise the key is absent. Of the store's answer only the first batch
  element of each field is used: cutting every field of the answer down to its first
  element changes neither the table nor the run.
\<close>

theorem query_call_arguments:
  "query_text w \<noteq> [] \<Longrightarrow>
   query_calls (query_executor loads query m w) =
     [\<lparr>p_query_texts = [query_text w],
       p_n_results = min (n_results w) m,
       p_where =
         (if where_filter w = [] then None
          else case loads (where_filter w) of
                 None \<Rightarrow> None
               | Some v \<Rightarrow> if truthy_json v then Some v else None),
       p_where_document =
         (if where_document_filter w = [] then None
          else case loads (where_document_filter w) of
                 None \<Rightarrow> None
               | Some v \<Rightarrow> if truthy_json v then Some v else None)\<rparr>] \<and>
   result_data (include_distances w) (first_only q) = result_data (include_distances w) q \<and>
   show_results (include_distances w) (first_only q) = show_results (include_distances w) q \<and>
   query_executor loads
       (\<lambda>p. case query p of Inl e \<Rightarrow> Inl e | Inr a \<Rightarrow> Inr (first_only a)) m w
     = query_executor loads query m w"
proof -
  assume q: "query_text w \<noteq> []"
  have calls: "query_calls (query_executor loads query m w) =
     [\<lparr>p_query_texts = [query_text w],
       p_n_results = min (n_results w) m,
       p_where =
         (if where_filter w = [] then None
          else case loads (where_filter w) of
                 None \<Rightarrow> None
               | Some v \<Rightarrow> if truthy_json v then Some v else None),
       p_where_document =
         (if where_document_filter w = [] then None
          else case loads (where_document_filter w) of
                 None \<Rightarrow> None
               | Some v \<Rightarrow> if truthy_json v then Some v else None)\<rparr>]"
    using q
    by (simp add: query_calls_query_executor build_query_params_def parse_filter_def
        split: option.split)
  have same: "query_executor loads
       (\<lambda>p. case query p of Inl e \<Rightarrow> Inl e | Inr a \<Rightarrow> Inr (first_only a)) m w
     = query_executor loads query m w"
    by (simp add: query_executor_def Let_def show_results_first_only split: sum.split)
  show ?thesis
    using calls same by (simp add: result_data_first_only show_results_first_only)
qed

theorem query_call_arguments_witness:
  "query_text searching_topic \<noteq> [] \<and>
   query_calls (query_executor sample_loads sample_query 3 searching_topic) =
     [\<lparr>p_query_texts = [''cats''], p_n_results = 3,
       p_where = Some (JDict [(''topic'', JStr ''science'')]),
       p_where_document = None\<rparr>]"
proof -
  have q: "query_text searching_topic \<noteq> []"
    by (simp add: searching_topic_def searching_def idle_def)
  show ?thesis
    using query_call_arguments [OF q, of sample_loads sample_query 3] q
    by (simp add: searching_topic_def searching_def idle_def sample_loads_def)
qed

section \<open>The browse executor: properties\<close>

text \<open>
  C9, as the claim states it: whenever the paged fetch returns a non-empty list of ids,
  a table is built and the range is reported. The table is built by \<^verbatim>\<open>pd.DataFrame\<close>
  from the lists as returned; for two ids and one document that raises, and the handler
  of line 155 reports a failed browse instead.
\<close>

theorem ragged_page_is_not_shown:
  "browse_btn browsing \<and>
   ragged_get (browse_limit browsing) (browse_offset browsing) =
     Inr \<lparr>ids = Some [''id1'', ''id2''], embeddings = None, metadatas = None,
          documents = Some [Some ''a'']\<rparr> \<and>
   browse_executor ragged_get browsing = [Call_get 10 0, Error_browse ValueError]"
  by (simp add: browse_executor_def browsing_def idle_def ragged_get_def show_browse_def
      truthy_def browse_data_def)

text \<open>
  C9, amended. After the button is pressed and the paged fetch has returned: if the ids
  are non-empty and the non-empty lists among documents and metadatas are as long as
  the ids, the executor shows a table of the ids and of whichever of documents and
  metadatas are non-empty (never embeddings), one row per id, and reports the range
  from the offset to the offset plus the number of ids; if the ids are non-empty and
  the lengths differ, it reports a failed browse; if the ids are absent or empty, it
  reports that no items were found, as an ordinary message. The bounds of the two
  widgets are not needed.
\<close>

theorem browse_reports_range:
  "browse_btn w \<and> get (browse_limit w) (browse_offset w) = Inr b \<Longrightarrow>
   (truthy (ids b) \<and> aligned b \<longrightarrow>
      browse_executor get w =
        [Call_get (browse_limit w) (browse_offset w),
         Dataframe (browse_data b),
         Write_showing (browse_offset w) (browse_offset w + item_count b)] \<and>
      ''ids'' \<in> set (columns (browse_data b)) \<and>
      (''documents'' \<in> set (columns (browse_data b)) \<longleftrightarrow> truthy (documents b)) \<and>
      (''metadatas'' \<in> set (columns (browse_data b)) \<longleftrightarrow> truthy (metadatas b)) \<and>
      set (columns (browse_data b)) \<subseteq> {''ids'', ''documents'', ''metadatas''} \<and>
      int (nrows (browse_data b)) = item_count b) \<and>
   (truthy (ids b) \<and> \<not> aligned b \<longrightarrow>
      browse_executor get w =
        [Call_get (browse_limit w) (browse_offset w), Error_browse ValueError]) \<and>
   (\<not> truthy (ids b) \<longrightarrow>
      browse_executor get w = [Call_get (browse_limit w) (browse_offset w), Info_no_items])"
proof (intro conjI impI)
  assume a: "browse_btn w \<and> get (browse_limit w) (browse_offset w) = Inr b"
  assume t: "truthy (ids b) \<and> aligned b"
  have ne: "browse_data b \<noteq> []"
    using t by (auto simp: truthy_def browse_data_def split: option.splits)
  have len: "py_len (ids b) = Inr (item_count b)"
    using t by (auto simp: truthy_def py_len_def item_count_def split: option.splits)
  show "browse_executor get w =
        [Call_get (browse_limit w) (browse_offset w),
         Dataframe (browse_data b),
         Write_showing (browse_offset w) (browse_offset w + item_count b)]"
    using a t ne
    by (simp add: browse_executor_def show_browse_def Let_def DataFrame_browse_data len)
  show "''ids'' \<in> set (columns (browse_data b))"
    "(''documents'' \<in> set (columns (browse_data b))) = truthy (documents b)"
    "(''metadatas'' \<in> set (columns (browse_data b))) = truthy (metadatas b)"
    "set (columns (browse_data b)) \<subseteq> {''ids'', ''documents'', ''metadatas''}"
    "int (nrows (browse_data b)) = item_count b"
    using t browse_data_columns [of b] by blast+
next
  assume a: "browse_btn w \<and> get (browse_limit w) (browse_offset w) = Inr b"
  assume t: "truthy (ids b) \<and> \<not> aligned b"
  have ne: "browse_data b \<noteq> []"
    using t by (auto simp: truthy_def browse_data_def split: option.splits)
  show "browse_executor get w =
        [Call_get (browse_limit w) (browse_offset w), Error_browse ValueError]"
    using a t ne
    by (simp add: browse_executor_def show_browse_def Let_def DataFrame_browse_data_ragged)
next
  assume a: "browse_btn w \<and> get (browse_limit w) (browse_offset w) = Inr b"
  assume t: "\<not> truthy (ids b)"
  show "browse_executor get w = [Call_get (browse_limit w) (browse_offset w), Info_no_items]"
    using a t by (simp add: browse_executor_def show_browse_def)
qed

theorem browse_reports_range_witness:
  "browse_btn browsing \<and>
   sample_get (browse_limit browsing) (browse_offset browsing) = Inr four_items \<and>
   truthy (ids four_items) \<and> aligned four_items \<and>
   browse_executor sample_get browsing =
     [Call_get 10 0,
      Dataframe [(''ids'', Ids [''id1'', ''id2'', ''id3'', ''id4'']),
                 (''documents'', Documents [Some ''a'', Some ''b'', Some ''c'', Some ''d'']),
                 (''metadatas'', Metadatas [None, None, None, None])],
      Write_showing 0 4] \<and>
   nrows (browse_data four_items) = 4"
proof -
  have a: "browse_btn browsing \<and>
      sample_get (browse_limit browsing) (browse_offset browsing) = Inr four_items"
    by (simp add: browsing_def idle_def sample_get_def four_items_def)
  have t: "truthy (ids four_items) \<and> aligned four_items"
    by (simp add: truthy_def aligned_def four_items_def len_or_0_def)
  have d: "browse_data four_items =
      [(''ids'', Ids [''id1'', ''id2'', ''id3'', ''id4'']),
       (''documents'', Documents [Some ''a'', Some ''b'', Some ''c'', Some ''d'']),
       (''metadatas'', Metadatas [None, None, None, None])]"
    by (simp add: browse_data_def four_items_def)
  have c: "item_count four_items = 4"
    by (simp add: item_count_def four_items_def)
  have w: "browse_limit browsing = 10" "browse_offset browsing = 0"
    by (simp_all add: browsing_def idle_def)
  show ?thesis
    using browse_reports_range [of browsing sample_get four_items, OF a] a t
    by (simp add: d c w)
qed

end
